theory Spec2Isabelle
  imports
    Complex_Main
    "HOL-Library.Multiset"
    "HOL-Library.Char_ord"
    "HOL-Library.List_Lexorder"
    "HOL-Library.Product_Lexorder"
begin

section \<open>Lap tables\<close>

text \<open>
  The three analysis modules (\<open>distributions.py\<close>, \<open>long_runs.py\<close>, \<open>reliability.py\<close>)
  transform one table of lap records with the tabular library. A table is modelled as the
  list of its rows, in row order. Its columns are those of the input contract:
  \<open>Team\<close>, \<open>Driver\<close>, \<open>Day\<close>, \<open>Stint\<close>, \<open>LapNumber\<close>, \<open>Compound\<close> and \<open>LapTimeSeconds\<close>.

  A cell that the library treats as missing (NaN / null) is \<open>None\<close>. Only the two columns
  the code tests for missing values are nullable here: \<open>Compound\<close> (\<open>.dropna()\<close> in the
  renderers) and \<open>LapTimeSeconds\<close> (\<open>dropna(subset=...)\<close>, \<open>.notna()\<close>). The grouping keys
  are taken as present in every row.

  Lap times are 64-bit floats in the program. A float is modelled by the real number it
  stands for, with \<open>None\<close> for NaN; the infinities are outside the model. The group
  statistics (\<open>mean\<close>, \<open>std\<close>, \<open>min\<close>, \<open>max\<close>, \<open>median\<close>) and the columns derived from
  them are modelled in exact arithmetic. The differences from the stint mean that
  \<open>get_long_run_laps\<close> computes are modelled with the rounding of 64-bit arithmetic,
  because whether they sum to zero depends on it. The square root of the standard
  deviation is the real one, so rows are evaluated on concrete tables with the simplifier.
\<close>

record lap =
  Team :: string
  Driver :: string
  Day :: int
  Stint :: int
  LapNumber :: int
  Compound :: "string option"
  LapTimeSeconds :: "real option"

subsection \<open>Columns with missing values and their aggregations\<close>

text \<open>The non-missing values of a column, in row order (\<open>Series.dropna()\<close>).\<close>

fun dropna :: "'a option list \<Rightarrow> 'a list" where
  "dropna [] = []"
| "dropna (None # xs) = dropna xs"
| "dropna (Some x # xs) = x # dropna xs"

text \<open>
  The group aggregations skip missing values. \<open>count\<close> is the number of non-missing
  values; \<open>first\<close> is the first non-missing value; \<open>min\<close>, \<open>max\<close>, \<open>mean\<close> and
  \<open>median\<close> of no values are NaN; \<open>std\<close> is the sample standard deviation
  (one degree of freedom removed), NaN for fewer than two values.
\<close>

definition agg_count :: "'a option list \<Rightarrow> int" where
  "agg_count xs = int (length (dropna xs))"

definition agg_first :: "'a option list \<Rightarrow> 'a option" where
  "agg_first xs = (case dropna xs of [] \<Rightarrow> None | x # _ \<Rightarrow> Some x)"

definition agg_min :: "real option list \<Rightarrow> real option" where
  "agg_min xs = (case dropna xs of [] \<Rightarrow> None | v # vs \<Rightarrow> Some (fold min vs v))"

definition agg_max :: "real option list \<Rightarrow> real option" where
  "agg_max xs = (case dropna xs of [] \<Rightarrow> None | v # vs \<Rightarrow> Some (fold max vs v))"

definition agg_mean :: "real option list \<Rightarrow> real option" where
  "agg_mean xs =
     (let vs = dropna xs
      in if vs = [] then None else Some (sum_list vs / real (length vs)))"

definition agg_median :: "real option list \<Rightarrow> real option" where
  "agg_median xs =
     (let vs = sort (dropna xs); n = length vs
      in if n = 0 then None
         else if odd n then Some (vs ! (n div 2))
         else Some ((vs ! (n div 2 - 1) + vs ! (n div 2)) / 2))"

definition agg_std :: "real option list \<Rightarrow> real option" where
  "agg_std xs =
     (let vs = dropna xs; n = length vs
      in if n < 2 then None
         else let m = sum_list vs / real n
              in Some (sqrt (sum_list (map (\<lambda>v. (v - m)\<^sup>2) vs) / real (n - 1))))"

text \<open>
  Arithmetic on cells: a missing operand gives a missing result. A quotient by zero is
  not a finite number and is counted as missing as well.
\<close>

definition nan_sub :: "real option \<Rightarrow> real option \<Rightarrow> real option" where
  "nan_sub a b = (case (a, b) of (Some x, Some y) \<Rightarrow> Some (x - y) | _ \<Rightarrow> None)"

definition nan_div :: "real option \<Rightarrow> real option \<Rightarrow> real option" where
  "nan_div a b =
     (case (a, b) of
        (Some x, Some y) \<Rightarrow> if y = 0 then None else Some (x / y)
      | _ \<Rightarrow> None)"

subsection \<open>64-bit floating point arithmetic\<close>

text \<open>
  Rounding to the nearest integer, a tie to the even one.
\<close>

definition round_half_even :: "real \<Rightarrow> int" where
  "round_half_even y =
     (let f = \<lfloor>y\<rfloor>; d = y - of_int f
      in if d < 1 / 2 then f
         else if 1 / 2 < d then f + 1
         else if even f then f else f + 1)"

text \<open>
  The binary exponent of a non-zero number, and the rounding of a real number to the
  nearest 64-bit float: to 53 significant bits, a tie to the even significand. Overflow
  and the subnormal range are outside the model.
\<close>

definition f64_exponent :: "real \<Rightarrow> int" where
  "f64_exponent x = \<lfloor>log 2 \<bar>x\<bar>\<rfloor>"

definition f64_round :: "real \<Rightarrow> real" where
  "f64_round x =
     (if x = 0 then 0
      else let q = 2 powi (f64_exponent x - 52)
           in of_int (round_half_even (x / q)) * q)"

text \<open>Each arithmetic operation on floats is the exact operation followed by one rounding.\<close>

definition f64_add :: "real \<Rightarrow> real \<Rightarrow> real" where
  "f64_add a b = f64_round (a + b)"

definition f64_sub :: "real \<Rightarrow> real \<Rightarrow> real" where
  "f64_sub a b = f64_round (a - b)"

definition f64_div :: "real \<Rightarrow> real \<Rightarrow> real" where
  "f64_div a b = f64_round (a / b)"

text \<open>
  \<open>Series.mean()\<close> on floats: the non-missing values are added up and the sum is divided
  by their number; no values give NaN. The sum is taken from left to right, which is the
  library's order for a column of fewer than eight values.
\<close>

definition f64_sum :: "real list \<Rightarrow> real" where
  "f64_sum vs = fold (\<lambda>v acc. f64_add acc v) vs 0"

definition f64_mean :: "real option list \<Rightarrow> real option" where
  "f64_mean xs =
     (let vs = dropna xs
      in if vs = [] then None else Some (f64_div (f64_sum vs) (real (length vs))))"

text \<open>The difference of two float cells: a missing operand gives a missing result.\<close>

definition f64_nan_sub :: "real option \<Rightarrow> real option \<Rightarrow> real option" where
  "f64_nan_sub a b = (case (a, b) of (Some x, Some y) \<Rightarrow> Some (f64_sub x y) | _ \<Rightarrow> None)"

subsection \<open>Comparisons and sums of columns\<close>

text \<open>The comparison \<open>column > 0\<close>: false on a missing value.\<close>

definition gt_zero :: "real option \<Rightarrow> bool" where
  "gt_zero a = (case a of None \<Rightarrow> False | Some t \<Rightarrow> 0 < t)"


subsection \<open>Grouping and sorting\<close>

text \<open>
  \<open>groupby\<close> with its defaults: one group per distinct key, the groups in ascending key
  order, the rows of a group in their original order. Strings compare lexicographically by
  character code, tuples of keys lexicographically.
\<close>

definition groupby :: "('r \<Rightarrow> 'k::linorder) \<Rightarrow> 'r list \<Rightarrow> ('k \<times> 'r list) list" where
  "groupby key rows =
     map (\<lambda>k. (k, filter (\<lambda>r. key r = k) rows)) (sort (remdups (map key rows)))"

text \<open>
  \<open>sort_values\<close> on a float column, ascending, with the default position of missing
  values: the rows with a value first, in ascending order, then the rows without one.
  The library's default algorithm fixes no order among equal keys; the model keeps
  their original order, and no result below depends on that choice.
\<close>

definition sort_values :: "('r \<Rightarrow> real option) \<Rightarrow> 'r list \<Rightarrow> 'r list" where
  "sort_values col rows =
     sort_key (\<lambda>r. the (col r)) (filter (\<lambda>r. col r \<noteq> None) rows)
       @ filter (\<lambda>r. col r = None) rows"

text \<open>The order in which \<open>sort_values\<close> leaves a column: ascending, missing values last.\<close>

fun nan_last_le :: "real option \<Rightarrow> real option \<Rightarrow> bool" where
  "nan_last_le (Some x) (Some y) = (x \<le> y)"
| "nan_last_le _ None = True"
| "nan_last_le None (Some y) = False"

text \<open>\<open>unique\<close>: the distinct values of a column in order of first appearance.\<close>

definition unique :: "'a list \<Rightarrow> 'a list" where
  "unique xs = rev (remdups (rev xs))"

section \<open>Long runs (\<open>long_runs.py\<close>)\<close>

text \<open>A stint is identified by \<open>(Team, Driver, Day, Stint)\<close>.\<close>

type_synonym stint_key = "string \<times> string \<times> int \<times> int"

definition lap_key :: "'a lap_scheme \<Rightarrow> stint_key" where
  "lap_key l = (Team l, Driver l, Day l, Stint l)"

text \<open>One row of the stint table that \<open>identify_long_runs\<close> aggregates.\<close>

record stint =
  run_Team :: string
  run_Driver :: string
  run_Day :: int
  run_Stint :: int
  StintLaps :: int
  run_Compound :: "string option"
  MeanTime :: "real option"
  StdTime :: "real option"
  MinTime :: "real option"
  MaxTime :: "real option"

text \<open>A long run: a stint row with the two derived columns (\<open>Range\<close> is \<open>RangeTime\<close>).\<close>

record long_run = stint +
  CoV :: "real option"
  RangeTime :: "real option"

definition run_key :: "'a stint_scheme \<Rightarrow> stint_key" where
  "run_key s = (run_Team s, run_Driver s, run_Day s, run_Stint s)"

text \<open>
  \<open>threshold = min_laps or LONG_RUN_MIN_LAPS\<close>: the override is used when it is truthy,
  so neither when it is absent nor when it is \<open>0\<close>.
\<close>

definition py_or :: "int option \<Rightarrow> int \<Rightarrow> int" where
  "py_or min_laps dflt =
     (case min_laps of None \<Rightarrow> dflt | Some n \<Rightarrow> if n = 0 then dflt else n)"

text \<open>The named aggregations of one group of the stint table.\<close>

definition agg_stint :: "stint_key \<times> lap list \<Rightarrow> stint" where
  "agg_stint g =
     (case g of ((team, driver, day, st), rows) \<Rightarrow>
        \<lparr> run_Team = team, run_Driver = driver, run_Day = day, run_Stint = st,
          StintLaps = agg_count (map LapTimeSeconds rows),
          run_Compound = agg_first (map Compound rows),
          MeanTime = agg_mean (map LapTimeSeconds rows),
          StdTime = agg_std (map LapTimeSeconds rows),
          MinTime = agg_min (map LapTimeSeconds rows),
          MaxTime = agg_max (map LapTimeSeconds rows) \<rparr>)"

definition add_cov_range :: "stint \<Rightarrow> long_run" where
  "add_cov_range s =
     stint.extend s
       \<lparr> CoV = nan_div (StdTime s) (MeanTime s),
         RangeTime = nan_sub (MaxTime s) (MinTime s) \<rparr>"

text \<open>
  \<open>identify_long_runs(laps, min_laps=None)\<close>. The module constant
  \<open>LONG_RUN_MIN_LAPS\<close> comes from the configuration module and is a parameter here.
\<close>

definition identify_long_runs :: "int \<Rightarrow> lap list \<Rightarrow> int option \<Rightarrow> long_run list" where
  "identify_long_runs LONG_RUN_MIN_LAPS laps min_laps =
     (let threshold = py_or min_laps LONG_RUN_MIN_LAPS;
          valid = filter (\<lambda>l. LapTimeSeconds l \<noteq> None) laps;
          valid = filter (\<lambda>l. gt_zero (LapTimeSeconds l)) valid;
          stints = map agg_stint (groupby lap_key valid);
          long_runs = filter (\<lambda>s. threshold \<le> StintLaps s) stints
      in map add_cov_range long_runs)"

text \<open>
  One lap of a long-run trace: the lap record with its number within the stint and its
  difference from the stint mean.
\<close>

record trace_lap = lap +
  StintLapNumber :: int
  DeltaFromMean :: "real option"

text \<open>
  The result of \<open>get_long_run_laps\<close> is either the table \<open>pd.DataFrame()\<close>, which has
  no columns and no rows, or a table with the columns of \<open>trace_lap\<close>.
\<close>

datatype 'r frame = NoColumns | Rows "'r list"

fun rows_of :: "'r frame \<Rightarrow> 'r list" where
  "rows_of NoColumns = []"
| "rows_of (Rows rs) = rs"

text \<open>\<open>DataFrame.empty\<close>: some axis has length zero.\<close>

fun frame_empty :: "'r frame \<Rightarrow> bool" where
  "frame_empty NoColumns = True"
| "frame_empty (Rows rs) = (rs = [])"

text \<open>
  The body of the loop of \<open>get_long_run_laps\<close> for one row \<open>run\<close> of the long-run table:
  the laps of that stint with a present, positive time, sorted by \<open>LapNumber\<close>, numbered
  \<open>range(1, len + 1)\<close>, each with the float difference of its lap time and the float
  mean of the selected lap times.
\<close>

definition stint_laps :: "lap list \<Rightarrow> 'a stint_scheme \<Rightarrow> trace_lap list" where
  "stint_laps laps run =
     (let mask = (\<lambda>l. Team l = run_Team run \<and> Driver l = run_Driver run
                      \<and> Day l = run_Day run \<and> Stint l = run_Stint run
                      \<and> LapTimeSeconds l \<noteq> None \<and> gt_zero (LapTimeSeconds l));
          sel = sort_key LapNumber (filter mask laps);
          m = f64_mean (map LapTimeSeconds sel)
      in map (\<lambda>(l, i). lap.extend l
                \<lparr> StintLapNumber = i,
                  DeltaFromMean = f64_nan_sub (LapTimeSeconds l) m \<rparr>)
           (zip sel [1..int (length sel)]))"

definition get_long_run_laps :: "lap list \<Rightarrow> 'a stint_scheme list \<Rightarrow> trace_lap frame" where
  "get_long_run_laps laps long_runs =
     (let result = map (stint_laps laps) long_runs
      in if result = [] then NoColumns else Rows (concat result))"

text \<open>One row of the consistency ranking.\<close>

record consistency =
  cons_Team :: string
  MeanCoV :: "real option"
  MedianCoV :: "real option"
  NumLongRuns :: int
  MeanRange :: "real option"

definition agg_consistency :: "string \<times> long_run list \<Rightarrow> consistency" where
  "agg_consistency g =
     (case g of (team, rows) \<Rightarrow>
        \<lparr> cons_Team = team,
          MeanCoV = agg_mean (map CoV rows),
          MedianCoV = agg_median (map CoV rows),
          NumLongRuns = agg_count (map CoV rows),
          MeanRange = agg_mean (map RangeTime rows) \<rparr>)"

definition compute_consistency_by_team :: "long_run list \<Rightarrow> consistency list" where
  "compute_consistency_by_team long_runs =
     sort_values MedianCoV (map agg_consistency (groupby run_Team long_runs))"

subsection \<open>Figures\<close>

text \<open>
  A renderer returns a figure or \<open>None\<close>. A figure is modelled by what is drawn from the
  data: per panel an optional heading and the drawn marks. The theme, axis labels,
  fixed titles, the legend, the watermark and the layout call do not depend on whether
  a figure is returned and are left out. The colour lookups come from the plotting and
  configuration modules and are parameters: \<open>build_color_maps\<close> gives the team and the
  driver colour tables, \<open>TEAM_COLORS\<close> and \<open>FALLBACK_COLOR\<close> the configured ones.
\<close>

datatype mark =
    Line string "int list" "real option list"
  | Violin string "real list" nat
  | Bar string "real option" string int

record panel =
  heading :: "string option"
  marks :: "mark list"

type_synonym figure = "panel list"

type_synonym color_maps = "(string \<rightharpoonup> string) \<times> (string \<rightharpoonup> string)"

text \<open>\<open>d.get(k, default)\<close>.\<close>

definition dict_get :: "('k \<rightharpoonup> 'v) \<Rightarrow> 'k \<Rightarrow> 'v \<Rightarrow> 'v" where
  "dict_get d k dflt = (case d k of None \<Rightarrow> dflt | Some v \<Rightarrow> v)"

text \<open>The line drawn for one stint group of a trace table.\<close>

definition trace_line :: "color_maps \<Rightarrow> stint_key \<times> trace_lap list \<Rightarrow> mark" where
  "trace_line cm g =
     (case (cm, g) of ((team_colors, driver_colors), (team, driver, day, st), grp) \<Rightarrow>
        Line (dict_get driver_colors driver (dict_get team_colors team ''#888888''))
          (map StintLapNumber grp) (map DeltaFromMean grp))"

definition plot_long_run_traces ::
    "(lap list \<Rightarrow> color_maps) \<Rightarrow> lap list \<Rightarrow> 'a stint_scheme list \<Rightarrow> figure option" where
  "plot_long_run_traces build_color_maps laps long_runs =
     (let cm = build_color_maps laps;
          run_laps = get_long_run_laps laps long_runs
      in if frame_empty run_laps then None
         else Some [\<lparr> heading = None,
                      marks = map (trace_line cm) (groupby lap_key (rows_of run_laps)) \<rparr>])"

definition plot_consistency_rankings ::
    "(string \<rightharpoonup> string) \<Rightarrow> string \<Rightarrow> long_run list \<Rightarrow> figure option" where
  "plot_consistency_rankings TEAM_COLORS FALLBACK_COLOR long_runs =
     (let consistency = compute_consistency_by_team long_runs
      in if consistency = [] then None
         else Some [\<lparr> heading = None,
                      marks = map (\<lambda>c. Bar (cons_Team c)
                                        (map_option (\<lambda>v. v * 100) (MedianCoV c))
                                        (dict_get TEAM_COLORS (cons_Team c) FALLBACK_COLOR)
                                        (NumLongRuns c))
                                consistency \<rparr>])"

definition plot_long_runs_by_compound ::
    "(lap list \<Rightarrow> color_maps) \<Rightarrow> lap list \<Rightarrow> 'a stint_scheme list \<Rightarrow> figure option" where
  "plot_long_runs_by_compound build_color_maps laps long_runs =
     (let cm = build_color_maps laps;
          run_laps = get_long_run_laps laps long_runs
      in if frame_empty run_laps then None
         else let compounds = sort (unique (dropna (map Compound (rows_of run_laps))));
                  n = length compounds
              in if n = 0 then None
                 else Some (map (\<lambda>compound.
                        let compound_data =
                              filter (\<lambda>r. Compound r = Some compound) (rows_of run_laps)
                        in \<lparr> heading = Some compound,
                             marks = map (trace_line cm) (groupby lap_key compound_data) \<rparr>)
                      compounds))"

section \<open>Lap time distributions (\<open>distributions.py\<close>)\<close>

text \<open>
  One row of the team statistics. The columns \<open>min\<close>, \<open>median\<close>, \<open>mean\<close>, \<open>std\<close> and
  \<open>count\<close> carry the suffix \<open>_col\<close>.
\<close>

record team_stats =
  stats_Team :: string
  min_col :: "real option"
  median_col :: "real option"
  mean_col :: "real option"
  std_col :: "real option"
  count_col :: int
  headline_gap :: "real option"

definition agg_team :: "string \<times> lap list \<Rightarrow> team_stats" where
  "agg_team g =
     (case g of (team, rows) \<Rightarrow>
        let xs = map LapTimeSeconds rows
        in \<lparr> stats_Team = team,
             min_col = agg_min xs,
             median_col = agg_median xs,
             mean_col = agg_mean xs,
             std_col = agg_std xs,
             count_col = agg_count xs,
             headline_gap = nan_sub (agg_median xs) (agg_min xs) \<rparr>)"

definition compute_team_stats :: "lap list \<Rightarrow> team_stats list" where
  "compute_team_stats laps = sort_values median_col (map agg_team (groupby Team laps))"

text \<open>
  The violins of one panel: the teams ordered by median lap time, one violin per team
  with at least one present lap time, at the team's position in that order.
\<close>

definition team_violins :: "(string \<rightharpoonup> string) \<Rightarrow> lap list \<Rightarrow> mark list" where
  "team_violins team_colors laps =
     (let teams_ordered =
            map fst (sort_values snd
              (map (\<lambda>(team, rows). (team, agg_median (map LapTimeSeconds rows)))
                 (groupby Team laps)))
      in concat (map (\<lambda>(i, team).
            let team_data = dropna (map LapTimeSeconds (filter (\<lambda>l. Team l = team) laps))
            in if team_data = [] then []
               else [Violin (dict_get team_colors team ''#888888'') team_data i])
          (zip [0..<length teams_ordered] teams_ordered)))"

definition plot_compound_distributions ::
    "(lap list \<Rightarrow> color_maps) \<Rightarrow> lap list \<Rightarrow> figure option" where
  "plot_compound_distributions build_color_maps laps =
     (let team_colors = fst (build_color_maps laps);
          compounds = filter (\<lambda>c. Some c \<in> set (unique (map Compound laps)))
                        [''SOFT'', ''MEDIUM'', ''HARD''];
          compounds = (if compounds = [] then unique (dropna (map Compound laps))
                       else compounds);
          n_compounds = length compounds
      in if n_compounds = 0 then None
         else Some (map (\<lambda>compound.
                \<lparr> heading = Some compound,
                  marks = team_violins team_colors
                            (filter (\<lambda>l. Compound l = Some compound) laps) \<rparr>)
              compounds))"

section \<open>Reliability (\<open>reliability.py\<close>)\<close>

datatype error = ValueError

text \<open>
  A pivoted table: the row labels, the column labels and the cells, one list per row label.
\<close>

record ('i, 'c, 'v) pivot_table =
  index :: "'i list"
  columns :: "'c list"
  cells :: "'v list list"

text \<open>
  \<open>pivot(index, columns, values)\<close> of a table of triples: the labels are the distinct
  values in ascending order, a cell without a row in the input is missing, and two rows
  for the same cell raise \<open>ValueError\<close>.
\<close>

definition pivot ::
    "('i::linorder \<times> 'c::linorder \<times> 'v) list \<Rightarrow> error + ('i, 'c, 'v option) pivot_table" where
  "pivot rows =
     (if \<not> distinct (map (\<lambda>(i, c, v). (i, c)) rows) then Inl ValueError
      else let idx = sort (remdups (map (\<lambda>(i, c, v). i) rows));
               cols = sort (remdups (map (\<lambda>(i, c, v). c) rows));
               cell = map_of (map (\<lambda>(i, c, v). ((i, c), v)) rows)
           in Inr \<lparr> index = idx, columns = cols,
                    cells = map (\<lambda>i. map (\<lambda>c. cell (i, c)) cols) idx \<rparr>)"

text \<open>\<open>.fillna(0).astype(int)\<close> on the cells.\<close>

definition fillna_int :: "('i, 'c, int option) pivot_table \<Rightarrow> ('i, 'c, int) pivot_table" where
  "fillna_int t =
     \<lparr> index = index t, columns = columns t,
       cells = map (map (\<lambda>v. case v of None \<Rightarrow> 0 | Some n \<Rightarrow> n)) (cells t) \<rparr>"

text \<open>
  \<open>groupby(["Team", "Day"]).size().reset_index(name="Laps")\<close>: one row per team and day
  with laps, holding the number of its rows.
\<close>

definition sizes :: "lap list \<Rightarrow> (string \<times> int \<times> int) list" where
  "sizes laps =
     map (\<lambda>((team, day), rows). (team, day, int (length rows)))
       (groupby (\<lambda>l. (Team l, Day l)) laps)"

definition compute_laps_per_team_day :: "lap list \<Rightarrow> error + (string, int, int) pivot_table" where
  "compute_laps_per_team_day laps =
     (case pivot (sizes laps) of
        Inl e \<Rightarrow> Inl e
      | Inr t \<Rightarrow> Inr (fillna_int t))"

text \<open>The value of the pivot at a row and a column label, when both are labels of it.\<close>

definition cell_at :: "('i, 'c, 'v) pivot_table \<Rightarrow> 'i \<Rightarrow> 'c \<Rightarrow> 'v option" where
  "cell_at t i c =
     (case map_of (zip (index t) (cells t)) i of
        None \<Rightarrow> None
      | Some row \<Rightarrow> map_of (zip (columns t) row) c)"

record team_total =
  total_Team :: string
  TotalLaps :: int

text \<open>
  \<open>sort_values(..., ascending=False)\<close> on an integer column: the library reverses the
  rows, sorts ascending and reverses the result.
\<close>

definition sort_values_desc :: "('r \<Rightarrow> int) \<Rightarrow> 'r list \<Rightarrow> 'r list" where
  "sort_values_desc col rows = rev (sort_key col (rev rows))"

definition compute_total_laps :: "lap list \<Rightarrow> team_total list" where
  "compute_total_laps laps =
     sort_values_desc TotalLaps
       (map (\<lambda>(team, rows). \<lparr> total_Team = team, TotalLaps = int (length rows) \<rparr>)
          (groupby Team laps))"

section \<open>Reference notions\<close>

text \<open>
  The notions the properties are stated with, written from the specification's words
  rather than from the code. A lap is valid when its lap time is present and strictly
  positive; \<open>stint_group laps k\<close> is the valid laps of the stint \<open>k\<close>, in table order;
  \<open>team_times laps team\<close> is the present lap times of a team, in table order.
\<close>

definition valid_lap :: "'a lap_scheme \<Rightarrow> bool" where
  "valid_lap l = (case LapTimeSeconds l of None \<Rightarrow> False | Some t \<Rightarrow> 0 < t)"

definition stint_group :: "lap list \<Rightarrow> stint_key \<Rightarrow> lap list" where
  "stint_group laps k = filter (\<lambda>l. valid_lap l \<and> lap_key l = k) laps"

definition lap_times :: "'a lap_scheme list \<Rightarrow> real list" where
  "lap_times rows = dropna (map LapTimeSeconds rows)"

definition team_times :: "lap list \<Rightarrow> string \<Rightarrow> real list" where
  "team_times laps team = lap_times (filter (\<lambda>l. Team l = team) laps)"

text \<open>The keys of the stints with at least \<open>th\<close> valid laps, in ascending order.\<close>

definition long_keys :: "int \<Rightarrow> lap list \<Rightarrow> stint_key list" where
  "long_keys th laps =
     filter (\<lambda>k. th \<le> int (length (stint_group laps k)))
       (sort (remdups (map lap_key (filter valid_lap laps))))"

text \<open>The valid laps of the stint of a long-run row, sorted by \<open>LapNumber\<close>.\<close>

definition selected :: "lap list \<Rightarrow> 'a stint_scheme \<Rightarrow> lap list" where
  "selected laps run = sort_key LapNumber (stint_group laps (run_key run))"

text \<open>
  The first present compound of a list of laps: the compound of the first lap, in table
  order, that has one; missing when no lap has one.
\<close>

definition first_compound :: "lap list \<Rightarrow> string option" where
  "first_compound g =
     (case dropWhile (\<lambda>l. Compound l = None) g of [] \<Rightarrow> None | l # _ \<Rightarrow> Compound l)"




text \<open>The number of laps of a team on a day, whatever their lap times.\<close>

definition team_day_count :: "lap list \<Rightarrow> string \<Rightarrow> int \<Rightarrow> int" where
  "team_day_count laps team day =
     int (length (filter (\<lambda>l. Team l = team \<and> Day l = day) laps))"

section \<open>Example tables\<close>

text \<open>
  The lap table of the specification's scenario: one stint of team \<open>A\<close>, driver \<open>X\<close>, on
  day 1, five laps on the soft compound with the times 90, 91, 89, 92 and 90 seconds.
\<close>

definition scenario_lap :: "int \<Rightarrow> real \<Rightarrow> lap" where
  "scenario_lap n t =
     \<lparr> Team = ''A'', Driver = ''X'', Day = 1, Stint = 1, LapNumber = n,
       Compound = Some ''SOFT'', LapTimeSeconds = Some t \<rparr>"

definition scenario_laps :: "lap list" where
  "scenario_laps =
     [scenario_lap 1 90, scenario_lap 2 91, scenario_lap 3 89, scenario_lap 4 92,
      scenario_lap 5 90]"

text \<open>A table with one valid lap: a stint of a single lap.\<close>

definition single_lap :: "lap list" where
  "single_lap = [scenario_lap 1 90]"

text \<open>
  A table with two teams: team \<open>B\<close> has one lap, without a lap time; team \<open>A\<close> has one
  lap of 90 seconds.
\<close>

definition mixed_laps :: "lap list" where
  "mixed_laps =
     [\<lparr> Team = ''B'', Driver = ''Y'', Day = 1, Stint = 1, LapNumber = 1,
        Compound = Some ''SOFT'', LapTimeSeconds = None \<rparr>,
      \<lparr> Team = ''A'', Driver = ''X'', Day = 1, Stint = 1, LapNumber = 1,
        Compound = Some ''SOFT'', LapTimeSeconds = Some 90 \<rparr>]"

text \<open>Three laps of the scenario's stint, not in lap order.\<close>

definition shuffled_laps :: "lap list" where
  "shuffled_laps = [scenario_lap 2 91, scenario_lap 1 90, scenario_lap 3 89]"

text \<open>A table with a missing (team, day) pair: team \<open>A\<close> ran on day 1, team \<open>B\<close> on day 2.\<close>

definition two_days :: "lap list" where
  "two_days =
     [\<lparr> Team = ''B'', Driver = ''Y'', Day = 2, Stint = 1, LapNumber = 1,
        Compound = None, LapTimeSeconds = None \<rparr>,
      \<lparr> Team = ''A'', Driver = ''X'', Day = 1, Stint = 1, LapNumber = 1,
        Compound = Some ''SOFT'', LapTimeSeconds = Some 90 \<rparr>]"

text \<open>The pivot of that table: a zero in the two cells without laps.\<close>

definition two_days_pivot :: "(string, int, int) pivot_table" where
  "two_days_pivot = \<lparr> index = [''A'', ''B''], columns = [1, 2], cells = [[1, 0], [0, 1]] \<rparr>"

text \<open>
  A table of one team with three laps: one with a lap time of \<open>0\<close>, one of 90 seconds and
  one without a lap time.
\<close>

definition odd_times :: "lap list" where
  "odd_times =
     [\<lparr> Team = ''A'', Driver = ''X'', Day = 1, Stint = 1, LapNumber = 1,
        Compound = Some ''SOFT'', LapTimeSeconds = Some 0 \<rparr>,
      \<lparr> Team = ''A'', Driver = ''X'', Day = 1, Stint = 1, LapNumber = 2,
        Compound = Some ''SOFT'', LapTimeSeconds = Some 90 \<rparr>,
      \<lparr> Team = ''A'', Driver = ''X'', Day = 1, Stint = 1, LapNumber = 3,
        Compound = Some ''SOFT'', LapTimeSeconds = None \<rparr>]"

text \<open>
  Three laps of one stint whose compounds are, in table order, missing, HARD and SOFT.
\<close>

definition compound_lap :: "int \<Rightarrow> string option \<Rightarrow> real \<Rightarrow> lap" where
  "compound_lap n c t =
     \<lparr> Team = ''A'', Driver = ''X'', Day = 1, Stint = 1, LapNumber = n,
       Compound = c, LapTimeSeconds = Some t \<rparr>"

definition compound_laps :: "lap list" where
  "compound_laps =
     [compound_lap 1 None 90, compound_lap 2 (Some ''HARD'') 91,
      compound_lap 3 (Some ''SOFT'') 92]"


text \<open>The key of the stint of the example tables.\<close>

definition scenario_key :: stint_key where
  "scenario_key = (''A'', ''X'', 1, 1)"

section \<open>Properties\<close>

subsection \<open>Grouping and sorting\<close>

lemma groupby_keys: "map fst (groupby key rows) = sort (remdups (map key rows))"
  by (simp add: groupby_def comp_def)

lemma groupby_keys_set: "set (map fst (groupby key rows)) = key ` set rows"
  by (simp add: groupby_keys del: map_map)

lemma groupby_keys_distinct: "distinct (map fst (groupby key rows))"
  by (simp add: groupby_keys del: map_map)

lemma groupby_Nil_iff: "groupby key rows = [] \<longleftrightarrow> rows = []"
proof -
  have "groupby key rows = [] \<longleftrightarrow> set (sort (remdups (map key rows))) = {}"
    unfolding groupby_def by (simp only: map_is_Nil_conv set_empty)
  then show ?thesis by simp
qed

lemma filter_None_sorted: "sorted_wrt (\<lambda>a b. nan_last_le (col a) (col b)) (filter (\<lambda>r. col r = None) rows)"
  by (induction rows) auto

lemma sort_values_sorted:
  "sorted_wrt (\<lambda>a b. nan_last_le (col a) (col b)) (sort_values col rows)"
proof -
  let ?ys = "filter (\<lambda>r. col r \<noteq> None) rows"
  let ?zs = "filter (\<lambda>r. col r = None) rows"
  let ?ss = "sort_key (\<lambda>r. the (col r)) ?ys"
  have "sorted (map (\<lambda>r. the (col r)) ?ss)"
    by (rule sorted_sort_key)
  then have a: "sorted_wrt (\<lambda>a b. the (col a) \<le> the (col b)) ?ss"
    by (simp add: sorted_map)
  have b: "\<And>a. a \<in> set ?ss \<Longrightarrow> col a \<noteq> None"
    by simp
  have 1: "sorted_wrt (\<lambda>a b. nan_last_le (col a) (col b)) ?ss"
  proof (rule sorted_wrt_mono_rel[OF _ a])
    fix x y assume "x \<in> set ?ss" "y \<in> set ?ss" "the (col x) \<le> the (col y)"
    then show "nan_last_le (col x) (col y)" using b[of x] b[of y] by (cases "col x"; cases "col y") auto
  qed
  have 2: "sorted_wrt (\<lambda>a b. nan_last_le (col a) (col b)) ?zs"
    by (rule filter_None_sorted)
  have 3: "\<And>x y. x \<in> set ?ss \<Longrightarrow> y \<in> set ?zs \<Longrightarrow> nan_last_le (col x) (col y)"
    by simp
  show ?thesis
    unfolding sort_values_def sorted_wrt_append using 1 2 3 by blast
qed

lemma sort_values_mset: "mset (sort_values col rows) = mset rows"
proof -
  have "mset (filter (\<lambda>r. col r \<noteq> None) rows) + mset (filter (\<lambda>r. col r = None) rows) = mset rows"
    by (induction rows) auto
  then show ?thesis by (simp add: sort_values_def)
qed

lemma sort_values_set: "set (sort_values col rows) = set rows"
  using sort_values_mset[of col rows] by (metis set_mset_mset)

lemma sort_values_Nil_iff: "sort_values col rows = [] \<longleftrightarrow> rows = []"
  using sort_values_mset[of col rows] by (metis mset_zero_iff)

lemma dropna_map_Some: "\<forall>x \<in> set xs. col x \<noteq> None \<Longrightarrow> dropna (map col xs) = map (\<lambda>r. the (col r)) xs"
  by (induction xs) auto

lemma dropna_map_None: "\<forall>x \<in> set xs. col x = None \<Longrightarrow> dropna (map col xs) = []"
  by (induction xs) auto

lemma dropna_append: "dropna (xs @ ys) = dropna xs @ dropna ys"
  by (induction xs rule: dropna.induct) auto

lemma dropna_sorted_sort_values: "sorted (dropna (map col (sort_values col rows)))"
  by (simp add: sort_values_def dropna_append dropna_map_Some dropna_map_None)

subsection \<open>The stint table of \<open>identify_long_runs\<close>\<close>

lemma valid_filter:
  "filter (\<lambda>l. gt_zero (LapTimeSeconds l)) (filter (\<lambda>l. LapTimeSeconds l \<noteq> None) laps)
     = filter valid_lap laps"
  by (induction laps) (auto simp: valid_lap_def gt_zero_def split: option.splits)

lemma identify_long_runs_unfold:
  "identify_long_runs D laps m =
     map add_cov_range (filter (\<lambda>s. py_or m D \<le> StintLaps s)
        (map agg_stint (groupby lap_key (filter valid_lap laps))))"
  by (simp only: identify_long_runs_def Let_def valid_filter)

lemma run_key_add_cov_range [simp]: "run_key (add_cov_range s) = run_key s"
  by (simp add: run_key_def add_cov_range_def stint.defs)

lemma run_key_agg_stint [simp]: "run_key (agg_stint (k, g)) = k"
  by (cases k) (simp add: run_key_def agg_stint_def)

lemma dropna_valid: "\<forall>l \<in> set g. valid_lap l \<Longrightarrow> length (dropna (map LapTimeSeconds g)) = length g"
  by (induction g) (auto simp: valid_lap_def split: option.splits)

lemma stint_group_valid: "\<forall>l \<in> set (stint_group laps k). valid_lap l"
  by (simp add: stint_group_def)

lemma lap_times_stint_group_length [simp]: "length (lap_times (stint_group laps k)) = length (stint_group laps k)"
  by (simp add: lap_times_def dropna_valid stint_group_valid)

lemma StintLaps_agg_stint: "StintLaps (agg_stint (k, stint_group laps k)) = int (length (stint_group laps k))"
  by (cases k) (simp add: agg_stint_def agg_count_def dropna_valid stint_group_valid)

lemma identify_long_runs_rows:
  "identify_long_runs D laps m =
     map (\<lambda>k. add_cov_range (agg_stint (k, stint_group laps k))) (long_keys (py_or m D) laps)"
  unfolding identify_long_runs_unfold groupby_def long_keys_def
  by (simp add: filter_map comp_def stint_group_def[symmetric] StintLaps_agg_stint)

lemma identify_long_runs_keys:
  "map run_key (identify_long_runs D laps m) = long_keys (py_or m D) laps"
  by (simp add: identify_long_runs_rows comp_def)

lemma long_keys_distinct: "distinct (long_keys th laps)"
  by (simp add: long_keys_def)

lemma long_keys_set:
  "k \<in> set (long_keys th laps) \<longleftrightarrow> stint_group laps k \<noteq> [] \<and> th \<le> int (length (stint_group laps k))"
  by (auto simp: long_keys_def stint_group_def filter_empty_conv)

lemma identify_long_runs_row:
  "r \<in> set (identify_long_runs D laps m) \<Longrightarrow>
     r = add_cov_range (agg_stint (run_key r, stint_group laps (run_key r)))
     \<and> run_key r \<in> set (long_keys (py_or m D) laps)"
  by (auto simp: identify_long_runs_rows)

lemma add_cov_range_sel [simp]:
  "run_Team (add_cov_range s) = run_Team s"
  "run_Driver (add_cov_range s) = run_Driver s"
  "run_Day (add_cov_range s) = run_Day s"
  "run_Stint (add_cov_range s) = run_Stint s"
  "StintLaps (add_cov_range s) = StintLaps s"
  "run_Compound (add_cov_range s) = run_Compound s"
  "MeanTime (add_cov_range s) = MeanTime s"
  "StdTime (add_cov_range s) = StdTime s"
  "MinTime (add_cov_range s) = MinTime s"
  "MaxTime (add_cov_range s) = MaxTime s"
  "CoV (add_cov_range s) = nan_div (StdTime s) (MeanTime s)"
  "RangeTime (add_cov_range s) = nan_sub (MaxTime s) (MinTime s)"
  by (simp_all add: add_cov_range_def stint.defs)

lemma agg_stint_sel [simp]:
  "StintLaps (agg_stint (k, g)) = agg_count (map LapTimeSeconds g)"
  "run_Compound (agg_stint (k, g)) = agg_first (map Compound g)"
  "MeanTime (agg_stint (k, g)) = agg_mean (map LapTimeSeconds g)"
  "StdTime (agg_stint (k, g)) = agg_std (map LapTimeSeconds g)"
  "MinTime (agg_stint (k, g)) = agg_min (map LapTimeSeconds g)"
  "MaxTime (agg_stint (k, g)) = agg_max (map LapTimeSeconds g)"
  by (cases k; simp add: agg_stint_def)+

lemma agg_mean_lap_times:
  "agg_mean (map LapTimeSeconds g) =
     (if lap_times g = [] then None else Some (sum_list (lap_times g) / real (length (lap_times g))))"
  by (simp add: agg_mean_def lap_times_def Let_def)

lemma fold_min_Min: "fold min xs (x::real) = Min (insert x (set xs))"
  using Min.set_eq_fold[of x xs] by simp

lemma fold_max_Max: "fold max xs (x::real) = Max (insert x (set xs))"
  using Max.set_eq_fold[of x xs] by simp

lemma agg_min_lap_times:
  "agg_min (map LapTimeSeconds g) =
     (if lap_times g = [] then None else Some (Min (set (lap_times g))))"
  by (simp add: agg_min_def lap_times_def fold_min_Min split: list.splits)

lemma agg_max_lap_times:
  "agg_max (map LapTimeSeconds g) =
     (if lap_times g = [] then None else Some (Max (set (lap_times g))))"
  by (simp add: agg_max_def lap_times_def fold_max_Max split: list.splits)

lemma agg_count_lap_times: "agg_count (map LapTimeSeconds g) = int (length (lap_times g))"
  by (simp add: agg_count_def lap_times_def)

lemma agg_std_None_iff: "agg_std (map LapTimeSeconds g) = None \<longleftrightarrow> length (lap_times g) < 2"
  by (simp add: agg_std_def lap_times_def Let_def)

lemma lap_times_pos: "\<forall>l \<in> set g. valid_lap l \<Longrightarrow> \<forall>t \<in> set (lap_times g). 0 < t"
  by (induction g) (auto simp: lap_times_def valid_lap_def split: option.splits)

lemma sum_list_pos': "xs \<noteq> [] \<Longrightarrow> \<forall>t \<in> set xs. 0 < (t::real) \<Longrightarrow> 0 < sum_list xs"
  by (induction xs) (auto intro: add_pos_nonneg sum_list_nonneg less_imp_le)

lemma lap_times_Nil_iff: "\<forall>l \<in> set g. valid_lap l \<Longrightarrow> lap_times g = [] \<longleftrightarrow> g = []"
  using dropna_valid[of g] by (auto simp: lap_times_def)

lemma mean_stint_group_pos:
  assumes "stint_group laps k \<noteq> []"
  shows "\<exists>m. agg_mean (map LapTimeSeconds (stint_group laps k)) = Some m \<and> 0 < m"
proof -
  let ?ts = "lap_times (stint_group laps k)"
  have ne: "?ts \<noteq> []" using assms lap_times_Nil_iff[OF stint_group_valid] by blast
  have "0 < sum_list ?ts" using ne lap_times_pos[OF stint_group_valid] by (rule sum_list_pos')
  moreover have "0 < real (length ?ts)" using assms by simp
  ultimately have "0 < sum_list ?ts / real (length ?ts)" by (rule divide_pos_pos)
  then show ?thesis using ne assms by (simp add: agg_mean_lap_times)
qed

lemma identify_long_runs_fields:
  assumes r: "r \<in> set (identify_long_runs D laps m)"
  defines "g \<equiv> stint_group laps (run_key r)"
  defines "ts \<equiv> lap_times g"
  shows "g \<noteq> []" "ts \<noteq> []" "length ts = length g"
    and "StintLaps r = int (length g)"
    and "py_or m D \<le> StintLaps r"
    and "run_Compound r = agg_first (map Compound g)"
    and "MeanTime r = Some (sum_list ts / real (length ts))"
    and "0 < sum_list ts / real (length ts)"
    and "StdTime r = agg_std (map LapTimeSeconds g)"
    and "MinTime r = Some (Min (set ts))"
    and "MaxTime r = Some (Max (set ts))"
    and "CoV r = nan_div (StdTime r) (MeanTime r)"
    and "RangeTime r = nan_sub (MaxTime r) (MinTime r)"
proof -
  from identify_long_runs_row[OF r]
  have req: "r = add_cov_range (agg_stint (run_key r, g))"
    and k: "run_key r \<in> set (long_keys (py_or m D) laps)"
    by (simp_all add: g_def)
  from k show gne: "g \<noteq> []" by (simp add: long_keys_set g_def)
  show len: "length ts = length g" by (simp add: ts_def g_def)
  with gne show tne: "ts \<noteq> []" by auto
  have sl: "StintLaps r = agg_count (map LapTimeSeconds g)"
    by (subst req) simp
  then show "StintLaps r = int (length g)" using len by (simp add: agg_count_lap_times ts_def)
  then show "py_or m D \<le> StintLaps r" using k by (simp add: long_keys_set g_def)
  show "run_Compound r = agg_first (map Compound g)" by (subst req) simp
  have "MeanTime r = agg_mean (map LapTimeSeconds g)" by (subst req) simp
  then show "MeanTime r = Some (sum_list ts / real (length ts))"
    using tne by (simp add: agg_mean_lap_times ts_def)
  from mean_stint_group_pos[of laps "run_key r"] gne tne
  show "0 < sum_list ts / real (length ts)"
    by (simp add: agg_mean_lap_times ts_def g_def)
  show "StdTime r = agg_std (map LapTimeSeconds g)" by (subst req) simp
  have "MinTime r = agg_min (map LapTimeSeconds g)" by (subst req) simp
  then show "MinTime r = Some (Min (set ts))" using tne by (simp add: agg_min_lap_times ts_def)
  have "MaxTime r = agg_max (map LapTimeSeconds g)" by (subst req) simp
  then show "MaxTime r = Some (Max (set ts))" using tne by (simp add: agg_max_lap_times ts_def)
  show "CoV r = nan_div (StdTime r) (MeanTime r)" by (subst req, subst (2 3) req) simp
  show "RangeTime r = nan_sub (MaxTime r) (MinTime r)" by (subst req, subst (2 3) req) simp
qed

subsection \<open>Evaluation on concrete tables\<close>

text \<open>The defining equations that the simplifier unfolds to run the model on a concrete table.\<close>

lemmas eval_defs =
  identify_long_runs_def py_or_def groupby_def agg_stint_def agg_median_def agg_min_def
  agg_max_def agg_mean_def agg_std_def agg_count_def agg_first_def nan_sub_def nan_div_def
  gt_zero_def lap_key_def run_key_def add_cov_range_def stint.defs scenario_laps_def scenario_lap_def
  stint_group_def valid_lap_def lap_times_def

subsection \<open>Long runs and the threshold\<close>

lemma agg_first_first_compound: "agg_first (map Compound g) = first_compound g"
proof (induction g)
  case Nil
  then show ?case by (simp add: agg_first_def first_compound_def)
next
  case (Cons a g)
  then show ?case
    by (cases "Compound a") (simp_all add: agg_first_def first_compound_def)
qed

text \<open>
  C3 (as amended). For every lap table and every integer \<open>N\<close> passed as \<open>min_laps\<close>,
  \<open>identify_long_runs\<close> drops the laps without a positive lap time, groups the rest by
  \<open>(Team, Driver, Day, Stint)\<close> and returns one row for exactly those groups whose number
  of valid laps is at least the threshold. The threshold is \<open>N\<close> when \<open>N\<close> is not \<open>0\<close> and
  the configured \<open>LONG_RUN_MIN_LAPS\<close> when \<open>N\<close> is \<open>0\<close>. In every returned row,
  \<open>StintLaps\<close> is the number of valid laps of the stint and is at least the threshold,
  \<open>Compound\<close> is the first non-null compound among those laps, in table order (the
  compound of the first lap that has one, not the first lap's when that is missing),
  \<open>MeanTime\<close>, \<open>MinTime\<close> and
  \<open>MaxTime\<close> are the mean, the least and the greatest of their lap times, \<open>StdTime\<close> is
  their sample standard deviation, \<open>CoV\<close> is \<open>StdTime\<close> divided by \<open>MeanTime\<close> (missing when
  \<open>StdTime\<close> is) and \<open>Range\<close> is \<open>MaxTime - MinTime\<close>.
\<close>

theorem identify_long_runs_threshold:
  "distinct (map run_key (identify_long_runs LONG_RUN_MIN_LAPS laps (Some N)))
   \<and> (\<forall>k. k \<in> set (map run_key (identify_long_runs LONG_RUN_MIN_LAPS laps (Some N)))
            \<longleftrightarrow> stint_group laps k \<noteq> []
                \<and> (if N = 0 then LONG_RUN_MIN_LAPS else N) \<le> int (length (stint_group laps k)))
   \<and> (\<forall>r \<in> set (identify_long_runs LONG_RUN_MIN_LAPS laps (Some N)).
         let g = stint_group laps (run_key r); ts = lap_times g; mean = sum_list ts / real (length ts)
         in StintLaps r = int (length g)
            \<and> (if N = 0 then LONG_RUN_MIN_LAPS else N) \<le> StintLaps r
            \<and> run_Compound r = first_compound g
            \<and> MeanTime r = Some mean
            \<and> StdTime r = agg_std (map LapTimeSeconds g)
            \<and> MinTime r = Some (Min (set ts))
            \<and> MaxTime r = Some (Max (set ts))
            \<and> CoV r = map_option (\<lambda>s. s / mean) (StdTime r)
            \<and> RangeTime r = Some (Max (set ts) - Min (set ts)))"
proof -
  let ?th = "if N = 0 then LONG_RUN_MIN_LAPS else N"
  let ?L = "identify_long_runs LONG_RUN_MIN_LAPS laps (Some N)"
  have th: "py_or (Some N) LONG_RUN_MIN_LAPS = ?th" by (simp add: py_or_def)
  have keys: "map run_key ?L = long_keys ?th laps"
    by (simp only: identify_long_runs_keys th)
  have 1: "distinct (map run_key ?L)" by (simp only: keys long_keys_distinct)
  have 2: "\<forall>k. k \<in> set (map run_key ?L)
            \<longleftrightarrow> stint_group laps k \<noteq> [] \<and> ?th \<le> int (length (stint_group laps k))"
    by (simp only: keys long_keys_set) simp
  have 3: "\<forall>r \<in> set ?L.
         let g = stint_group laps (run_key r); ts = lap_times g; mean = sum_list ts / real (length ts)
         in StintLaps r = int (length g)
            \<and> ?th \<le> StintLaps r
            \<and> run_Compound r = first_compound g
            \<and> MeanTime r = Some mean
            \<and> StdTime r = agg_std (map LapTimeSeconds g)
            \<and> MinTime r = Some (Min (set ts))
            \<and> MaxTime r = Some (Max (set ts))
            \<and> CoV r = map_option (\<lambda>s. s / mean) (StdTime r)
            \<and> RangeTime r = Some (Max (set ts) - Min (set ts))"
  proof
    fix r assume r: "r \<in> set ?L"
    note f = identify_long_runs_fields[OF r]
    have cov: "CoV r = map_option (\<lambda>s. s / (sum_list (lap_times (stint_group laps (run_key r)))
                 / real (length (lap_times (stint_group laps (run_key r)))))) (StdTime r)"
    proof -
      have ne: "sum_list (lap_times (stint_group laps (run_key r)))
                 / real (length (lap_times (stint_group laps (run_key r)))) \<noteq> 0"
        using f(8) by linarith
      show ?thesis
        unfolding f(12) f(7) nan_div_def using ne
        by (cases "StdTime r") (simp_all del: lap_times_stint_group_length)
    qed
    have rng: "RangeTime r = Some (Max (set (lap_times (stint_group laps (run_key r))))
                 - Min (set (lap_times (stint_group laps (run_key r)))))"
      by (simp add: f(13) f(10) f(11) nan_sub_def)
    show "let g = stint_group laps (run_key r); ts = lap_times g; mean = sum_list ts / real (length ts)
         in StintLaps r = int (length g)
            \<and> ?th \<le> StintLaps r
            \<and> run_Compound r = first_compound g
            \<and> MeanTime r = Some mean
            \<and> StdTime r = agg_std (map LapTimeSeconds g)
            \<and> MinTime r = Some (Min (set ts))
            \<and> MaxTime r = Some (Max (set ts))
            \<and> CoV r = map_option (\<lambda>s. s / mean) (StdTime r)
            \<and> RangeTime r = Some (Max (set ts) - Min (set ts))"
      unfolding Let_def
      using f(4) f(5)[unfolded th] f(6)[unfolded agg_first_first_compound] f(7) f(9) f(10) f(11)
        cov rng
      by blast
  qed
  from 1 2 3 show ?thesis by blast
qed

lemma scenario_eval:
  "map run_key (identify_long_runs 3 scenario_laps (Some 5)) = [(''A'', ''X'', 1, 1)]"
  "map StintLaps (identify_long_runs 3 scenario_laps (Some 5)) = [5]"
  by (simp_all add: eval_defs)

lemma compound_eval:
  "map run_key (identify_long_runs 3 compound_laps (Some 3)) = [scenario_key]"
  "stint_group compound_laps scenario_key = compound_laps"
  "first_compound compound_laps = Some ''HARD''"
  by (simp_all add: eval_defs compound_laps_def compound_lap_def scenario_key_def
        first_compound_def)

text \<open>
  The specification's scenario, with threshold 5: one row, for the stint \<open>(A, X, 1, 1)\<close>,
  with five laps, mean 90.4, compound SOFT and range 3. And the stint whose laps have the
  compounds missing, HARD and SOFT, with threshold 3: one row, with compound HARD.
\<close>

theorem identify_long_runs_threshold_witness:
  "map run_key (identify_long_runs 3 scenario_laps (Some 5)) = [(''A'', ''X'', 1, 1)]
   \<and> map StintLaps (identify_long_runs 3 scenario_laps (Some 5)) = [5]
   \<and> map MeanTime (identify_long_runs 3 scenario_laps (Some 5)) = [Some (452 / 5)]
   \<and> map run_Compound (identify_long_runs 3 scenario_laps (Some 5)) = [Some ''SOFT'']
   \<and> map RangeTime (identify_long_runs 3 scenario_laps (Some 5)) = [Some 3]
   \<and> map Compound compound_laps = [None, Some ''HARD'', Some ''SOFT'']
   \<and> map run_Compound (identify_long_runs 3 compound_laps (Some 3)) = [Some ''HARD'']"
proof -
  let ?L = "identify_long_runs 3 scenario_laps (Some 5)"
  obtain r where L: "?L = [r]" and k: "run_key r = (''A'', ''X'', 1, 1)"
    using scenario_eval(1) by auto
  have g: "stint_group scenario_laps (''A'', ''X'', 1, 1) = scenario_laps"
    by (simp add: eval_defs)
  have ts: "lap_times scenario_laps = [90, 91, 89, 92, 90]"
    by (simp add: eval_defs)
  have c: "first_compound scenario_laps = Some ''SOFT''"
    by (simp add: first_compound_def scenario_laps_def scenario_lap_def)
  have len: "length scenario_laps = 5"
    by (simp add: scenario_laps_def)
  from identify_long_runs_threshold[of 3 scenario_laps 5] L
  have a: "StintLaps r = 5 \<and> MeanTime r = Some (452 / 5) \<and> run_Compound r = Some ''SOFT''
        \<and> RangeTime r = Some 3"
    by (simp add: Let_def k g ts c len)
  let ?M = "identify_long_runs 3 compound_laps (Some 3)"
  obtain q where M: "?M = [q]" and kq: "run_key q = scenario_key"
    using compound_eval(1) by auto
  from identify_long_runs_threshold[of 3 compound_laps 3] M
  have b: "run_Compound q = Some ''HARD''"
    by (simp add: Let_def kq compound_eval(2) compound_eval(3))
  have cs: "map Compound compound_laps = [None, Some ''HARD'', Some ''SOFT'']"
    by (simp add: compound_laps_def compound_lap_def)
  from a b cs L M k show ?thesis by simp
qed

text \<open>
  The threshold is not always the number passed, and the compound is not always the
  first lap's. With \<open>min_laps = 0\<close> and the constant set to 6, the scenario's stint has
  five valid laps, which is at least 0, and is not returned. With \<open>min_laps = 3\<close>, the
  stint whose first lap has no compound and whose second lap is on HARD is returned with
  the compound HARD, not with the missing first value.
\<close>

theorem identify_long_runs_zero_threshold_counterexample:
  "stint_group scenario_laps (''A'', ''X'', 1, 1) \<noteq> []
   \<and> (0::int) \<le> int (length (stint_group scenario_laps (''A'', ''X'', 1, 1)))
   \<and> (''A'', ''X'', 1, 1) \<notin> set (map run_key (identify_long_runs 6 scenario_laps (Some 0)))
   \<and> map Compound (stint_group compound_laps (''A'', ''X'', 1, 1))
       = [None, Some ''HARD'', Some ''SOFT'']
   \<and> map run_Compound (identify_long_runs 6 compound_laps (Some 3)) = [Some ''HARD'']"
  by (simp add: eval_defs compound_laps_def compound_lap_def)

subsection \<open>Undefined standard deviation\<close>

text \<open>
  C7. In every row that \<open>identify_long_runs\<close> returns, an undefined \<open>StdTime\<close> (NaN)
  gives an undefined \<open>CoV\<close>, not \<open>0\<close>: NaN propagates through \<open>StdTime / MeanTime\<close>. Since
  \<open>MeanTime\<close> is a positive number in every row, \<open>CoV\<close> is undefined only then. A stint
  of a single lap, which a threshold of 1 lets through, has an undefined \<open>StdTime\<close>.
\<close>

theorem identify_long_runs_nan_cov:
  assumes r: "r \<in> set (identify_long_runs LONG_RUN_MIN_LAPS laps min_laps)"
  shows "(StdTime r = None \<longrightarrow> CoV r = None \<and> CoV r \<noteq> Some 0)
         \<and> (CoV r = None \<longrightarrow> StdTime r = None)
         \<and> (StintLaps r = 1 \<longrightarrow> StdTime r = None)"
proof -
  note f = identify_long_runs_fields[OF r]
  have ne: "sum_list (lap_times (stint_group laps (run_key r)))
              / real (length (lap_times (stint_group laps (run_key r)))) \<noteq> 0"
    using f(8) by linarith
  have a: "StdTime r = None \<longrightarrow> CoV r = None \<and> CoV r \<noteq> Some 0"
    unfolding f(12) by (simp add: nan_div_def)
  have b: "CoV r = None \<longrightarrow> StdTime r = None"
    unfolding f(12) f(7) nan_div_def using ne
    by (cases "StdTime r") (simp_all del: lap_times_stint_group_length)
  have c: "StintLaps r = 1 \<longrightarrow> StdTime r = None"
    using f(3) f(4) by (simp add: f(9) agg_std_None_iff)
  from a b c show ?thesis by blast
qed

text \<open>A single lap with threshold 1: one row, with one lap, NaN \<open>StdTime\<close> and NaN \<open>CoV\<close>.\<close>

theorem identify_long_runs_nan_cov_witness:
  "identify_long_runs 5 single_lap (Some 1) \<noteq> []
   \<and> list_all (\<lambda>r. StintLaps r = 1 \<and> StdTime r = None \<and> CoV r = None)
        (identify_long_runs 5 single_lap (Some 1))"
proof -
  let ?L = "identify_long_runs 5 single_lap (Some 1)"
  have e: "map StintLaps ?L = [1]"
    by (simp add: eval_defs single_lap_def)
  then obtain r where L: "?L = [r]" and s: "StintLaps r = 1" by auto
  have "r \<in> set ?L" using L by simp
  from identify_long_runs_nan_cov[OF this] s
  have "StdTime r = None \<and> CoV r = None" by simp
  with L s show ?thesis by simp
qed

subsection \<open>Consistency ranking\<close>


subsection \<open>Team statistics\<close>

lemma agg_team_sel [simp]:
  "stats_Team (agg_team (t, rows)) = t"
  "min_col (agg_team (t, rows)) = agg_min (map LapTimeSeconds rows)"
  "median_col (agg_team (t, rows)) = agg_median (map LapTimeSeconds rows)"
  "mean_col (agg_team (t, rows)) = agg_mean (map LapTimeSeconds rows)"
  "std_col (agg_team (t, rows)) = agg_std (map LapTimeSeconds rows)"
  "count_col (agg_team (t, rows)) = agg_count (map LapTimeSeconds rows)"
  "headline_gap (agg_team (t, rows)) = nan_sub (agg_median (map LapTimeSeconds rows)) (agg_min (map LapTimeSeconds rows))"
  by (simp_all add: agg_team_def Let_def)

lemma team_stats_teams:
  "mset (map stats_Team (compute_team_stats laps)) = mset (map fst (groupby Team laps))"
proof -
  have "map stats_Team (map agg_team (groupby Team laps)) = map fst (groupby Team laps)"
    by (simp add: groupby_def comp_def)
  then show ?thesis
    unfolding compute_team_stats_def by (metis mset_map sort_values_mset)
qed

lemma team_stats_row:
  assumes "r \<in> set (compute_team_stats laps)"
  shows "r = agg_team (stats_Team r, filter (\<lambda>l. Team l = stats_Team r) laps)"
    and "stats_Team r \<in> Team ` set laps"
  using assms unfolding compute_team_stats_def sort_values_set
  by (auto simp: groupby_def)

lemma sort_key_Nil_iff: "sort_key f xs = [] \<longleftrightarrow> xs = []"
  using length_sort[of f xs] by (metis length_0_conv)

lemma agg_median_None_iff: "agg_median xs = None \<longleftrightarrow> dropna xs = []"
  by (simp add: agg_median_def Let_def sort_key_Nil_iff del: not_None_eq)

lemma agg_median_team_times:
  "agg_median (map LapTimeSeconds (filter (\<lambda>l. Team l = t) laps)) = None \<longleftrightarrow> team_times laps t = []"
  by (simp add: agg_median_None_iff team_times_def lap_times_def)

text \<open>
  C2 (as amended). For every non-empty lap table, \<open>compute_team_stats\<close> returns exactly
  one row per distinct team of the table, whether or not the team has a valid lap, and
  at least one row. The rows are sorted ascending by the team's median lap time, the
  teams without a median last. A row's \<open>count\<close> is the number of present lap times of
  its team, and its median is undefined exactly when the team has none.
\<close>

theorem compute_team_stats_rows:
  assumes "laps \<noteq> []"
  shows "distinct (map stats_Team (compute_team_stats laps))
         \<and> set (map stats_Team (compute_team_stats laps)) = Team ` set laps
         \<and> compute_team_stats laps \<noteq> []
         \<and> sorted_wrt (\<lambda>a b. nan_last_le (median_col a) (median_col b)) (compute_team_stats laps)
         \<and> sorted (dropna (map median_col (compute_team_stats laps)))
         \<and> (\<forall>r \<in> set (compute_team_stats laps).
               count_col r = int (length (team_times laps (stats_Team r)))
               \<and> (median_col r = None \<longleftrightarrow> team_times laps (stats_Team r) = []))"
proof -
  let ?S = "compute_team_stats laps"
  have m: "mset (map stats_Team ?S) = mset (map fst (groupby Team laps))"
    by (rule team_stats_teams)
  have 1: "distinct (map stats_Team ?S)"
    using mset_eq_imp_distinct_iff[OF m] groupby_keys_distinct[of Team laps] by simp
  have "set (map stats_Team ?S) = set (map fst (groupby Team laps))"
    using m by (rule mset_eq_setD)
  then have 2: "set (map stats_Team ?S) = Team ` set laps"
    by (simp only: groupby_keys_set)
  have 3: "?S \<noteq> []" using 2 assms by auto
  have 4: "sorted_wrt (\<lambda>a b. nan_last_le (median_col a) (median_col b)) ?S"
    unfolding compute_team_stats_def by (rule sort_values_sorted)
  have 5: "sorted (dropna (map median_col ?S))"
    unfolding compute_team_stats_def by (rule dropna_sorted_sort_values)
  have 6: "\<forall>r \<in> set ?S. count_col r = int (length (team_times laps (stats_Team r)))
               \<and> (median_col r = None \<longleftrightarrow> team_times laps (stats_Team r) = [])"
  proof
    fix r assume r: "r \<in> set ?S"
    note eq = team_stats_row(1)[OF r]
    have "count_col r = int (length (team_times laps (stats_Team r)))"
      by (subst eq) (simp add: agg_count_def team_times_def lap_times_def)
    moreover have "median_col r = None \<longleftrightarrow> team_times laps (stats_Team r) = []"
      by (subst eq) (simp add: agg_median_team_times)
    ultimately show "count_col r = int (length (team_times laps (stats_Team r)))
               \<and> (median_col r = None \<longleftrightarrow> team_times laps (stats_Team r) = [])" by blast
  qed
  from 1 2 3 4 5 6 show ?thesis by blast
qed

lemmas eval_team_defs =
  compute_team_stats_def groupby_def sort_values_def agg_team_def agg_median_def agg_min_def
  agg_mean_def agg_std_def agg_count_def nan_sub_def mixed_laps_def valid_lap_def
  team_times_def lap_times_def

text \<open>
  The table of teams \<open>A\<close> and \<open>B\<close>: two rows, \<open>A\<close> with median 90 and count 1 first,
  then \<open>B\<close> with no median and count 0.
\<close>

theorem compute_team_stats_rows_witness:
  "mixed_laps \<noteq> []
   \<and> map stats_Team (compute_team_stats mixed_laps) = [''A'', ''B'']
   \<and> map median_col (compute_team_stats mixed_laps) = [Some 90, None]
   \<and> map count_col (compute_team_stats mixed_laps) = [1, 0]"
proof -
  have ne: "mixed_laps \<noteq> []" by (simp add: mixed_laps_def)
  have t: "map stats_Team (compute_team_stats mixed_laps) = [''A'', ''B'']"
    by (simp add: eval_team_defs)
  have m: "map median_col (compute_team_stats mixed_laps) = [Some 90, None]"
    by (simp add: eval_team_defs)
  have tt: "team_times mixed_laps ''A'' = [90]" "team_times mixed_laps ''B'' = []"
    by (simp_all add: eval_team_defs)
  from t obtain a b where S: "compute_team_stats mixed_laps = [a, b]"
    and a: "stats_Team a = ''A''" and b: "stats_Team b = ''B''" by auto
  from compute_team_stats_rows[OF ne] S a b tt
  have "count_col a = 1 \<and> count_col b = 0" by simp
  with S ne t m show ?thesis by simp
qed

text \<open>
  A team without a valid lap is not left out: team \<open>B\<close> has no valid lap and has a row
  all the same, so the result has two rows although one team only has a valid lap.
\<close>

theorem compute_team_stats_invalid_team_counterexample:
  "mixed_laps \<noteq> []
   \<and> list_all (\<lambda>l. \<not> valid_lap l) (filter (\<lambda>l. Team l = ''B'') mixed_laps)
   \<and> ''B'' \<in> set (map stats_Team (compute_team_stats mixed_laps))
   \<and> length (compute_team_stats mixed_laps) = 2
   \<and> remdups (map Team (filter valid_lap mixed_laps)) = [''A'']"
  by (simp add: eval_team_defs)

subsection \<open>Renderers on empty input\<close>

lemma get_long_run_laps_Nil [simp]: "get_long_run_laps laps [] = NoColumns"
  by (simp add: get_long_run_laps_def)

lemma get_long_run_laps_rows:
  "rows_of (get_long_run_laps laps long_runs) = concat (map (stint_laps laps) long_runs)"
  by (simp add: get_long_run_laps_def Let_def)

lemma frame_empty_rows: "frame_empty f \<longleftrightarrow> rows_of f = []"
  by (cases f) simp_all

lemma unique_Nil_iff [simp]: "unique xs = [] \<longleftrightarrow> xs = []"
  by (simp add: unique_def)

lemma unique_set [simp]: "set (unique xs) = set xs"
  by (simp add: unique_def)

lemma dropna_Nil_iff: "dropna xs = [] \<longleftrightarrow> (\<forall>x \<in> set xs. x = None)"
  by (induction xs rule: dropna.induct) auto

lemma compute_consistency_Nil_iff: "compute_consistency_by_team long_runs = [] \<longleftrightarrow> long_runs = []"
  by (simp add: compute_consistency_by_team_def sort_values_Nil_iff groupby_Nil_iff)

text \<open>
  C4. A renderer whose aggregated input is empty returns \<open>None\<close>. \<open>plot_long_run_traces\<close>
  returns \<open>None\<close> exactly when the selection of long-run laps has no rows, and
  \<open>plot_long_runs_by_compound\<close> exactly when that selection has no present compound, which
  includes the selection without rows; both do so for an empty long-run table.
  \<open>plot_consistency_rankings\<close> returns \<open>None\<close> exactly when the consistency table is empty,
  which is when the long-run table is. \<open>plot_compound_distributions\<close> returns \<open>None\<close>
  exactly when no lap has a compound. Every renderer of the model is a total function into
  \<open>figure option\<close>: on a table of the schema, no step before these tests can raise.
\<close>

theorem renderers_absent_on_empty:
  "plot_long_run_traces build_color_maps laps [] = None
   \<and> plot_long_runs_by_compound build_color_maps laps [] = None
   \<and> (plot_long_run_traces build_color_maps laps long_runs = None
        \<longleftrightarrow> rows_of (get_long_run_laps laps long_runs) = [])
   \<and> (plot_long_runs_by_compound build_color_maps laps long_runs = None
        \<longleftrightarrow> dropna (map Compound (rows_of (get_long_run_laps laps long_runs))) = [])
   \<and> (plot_consistency_rankings TEAM_COLORS FALLBACK_COLOR lrs = None
        \<longleftrightarrow> compute_consistency_by_team lrs = [])
   \<and> (compute_consistency_by_team lrs = [] \<longleftrightarrow> lrs = [])
   \<and> (plot_compound_distributions build_color_maps laps = None
        \<longleftrightarrow> dropna (map Compound laps) = [])"
proof -
  have 1: "plot_long_run_traces build_color_maps laps [] = None"
    by (simp add: plot_long_run_traces_def)
  have 2: "plot_long_runs_by_compound build_color_maps laps [] = None"
    by (simp add: plot_long_runs_by_compound_def)
  have 3: "plot_long_run_traces build_color_maps laps long_runs = None
        \<longleftrightarrow> rows_of (get_long_run_laps laps long_runs) = []"
    by (simp add: plot_long_run_traces_def Let_def frame_empty_rows)
  have 4: "plot_long_runs_by_compound build_color_maps laps long_runs = None
        \<longleftrightarrow> dropna (map Compound (rows_of (get_long_run_laps laps long_runs))) = []"
    by (auto simp: plot_long_runs_by_compound_def Let_def frame_empty_rows sort_key_Nil_iff)
  have 5: "plot_consistency_rankings TEAM_COLORS FALLBACK_COLOR lrs = None
        \<longleftrightarrow> compute_consistency_by_team lrs = []"
    by (simp add: plot_consistency_rankings_def Let_def)
  have 6: "plot_compound_distributions build_color_maps laps = None
        \<longleftrightarrow> dropna (map Compound laps) = []"
  proof (cases "dropna (map Compound laps) = []")
    case True
    then have "\<forall>c. Some c \<notin> set (map Compound laps)"
      by (auto simp: dropna_Nil_iff)
    then have "filter (\<lambda>c. Some c \<in> set (unique (map Compound laps))) [''SOFT'', ''MEDIUM'', ''HARD''] = []"
      by (simp del: set_map)
    then show ?thesis using True
      by (simp add: plot_compound_distributions_def Let_def del: set_map unique_set)
  next
    case False
    then show ?thesis
      by (simp add: plot_compound_distributions_def Let_def del: set_map unique_set)
  qed
  from 1 2 3 4 5 6 compute_consistency_Nil_iff[of lrs] show ?thesis by blast
qed

subsection \<open>Rounding to a 64-bit float\<close>











subsection \<open>Long-run lap traces\<close>

lemma extend_sel [simp]:
  "Team (lap.extend l m) = Team l"
  "Driver (lap.extend l m) = Driver l"
  "Day (lap.extend l m) = Day l"
  "Stint (lap.extend l m) = Stint l"
  "LapNumber (lap.extend l m) = LapNumber l"
  "Compound (lap.extend l m) = Compound l"
  "LapTimeSeconds (lap.extend l m) = LapTimeSeconds l"
  by (simp_all add: lap.defs)

lemma extend_trace_sel [simp]:
  "StintLapNumber (lap.extend l \<lparr> StintLapNumber = i, DeltaFromMean = d \<rparr>) = i"
  "DeltaFromMean (lap.extend l \<lparr> StintLapNumber = i, DeltaFromMean = d \<rparr>) = d"
  by (simp_all add: lap.defs trace_lap.defs)

lemma truncate_extend [simp]: "lap.truncate (lap.extend (l::lap) m) = l"
  by (simp add: lap.defs)

lemma lap_key_extend [simp]: "lap_key (lap.extend l m) = lap_key l"
  by (simp add: lap_key_def)

lemma mask_eq:
  "(Team l = run_Team run \<and> Driver l = run_Driver run \<and> Day l = run_Day run \<and> Stint l = run_Stint run
     \<and> LapTimeSeconds l \<noteq> None \<and> gt_zero (LapTimeSeconds l))
   \<longleftrightarrow> (valid_lap l \<and> lap_key l = run_key run)"
  by (auto simp: valid_lap_def gt_zero_def lap_key_def run_key_def split: option.splits)

lemma stint_laps_unfold:
  "stint_laps laps run =
     map (\<lambda>(l, i). lap.extend l \<lparr> StintLapNumber = i,
            DeltaFromMean = f64_nan_sub (LapTimeSeconds l) (f64_mean (map LapTimeSeconds (selected laps run))) \<rparr>)
       (zip (selected laps run) [1..int (length (selected laps run))])"
  unfolding stint_laps_def Let_def mask_eq selected_def stint_group_def ..

lemma length_upto_nat [simp]: "length [1..int n] = n"
  by simp

lemma stint_laps_length [simp]: "length (stint_laps laps run) = length (stint_group laps (run_key run))"
  by (simp add: stint_laps_unfold selected_def)

lemma map_zip_fst': "length xs = length ys \<Longrightarrow> map (\<lambda>(x, y). f x) (zip xs ys) = map f xs"
  by (induction xs ys rule: list_induct2) auto

lemma map_zip_snd': "length xs = length ys \<Longrightarrow> map (\<lambda>(x, y). g y) (zip xs ys) = map g ys"
  by (induction xs ys rule: list_induct2) auto

lemma stint_laps_truncate: "map lap.truncate (stint_laps laps run) = selected laps run"
  by (simp add: stint_laps_unfold comp_def case_prod_unfold map_zip_fst'[where f="\<lambda>x. x", unfolded case_prod_unfold])

lemma stint_laps_LapNumber: "map LapNumber (stint_laps laps run) = map LapNumber (selected laps run)"
  by (simp add: stint_laps_unfold comp_def case_prod_unfold map_zip_fst'[unfolded case_prod_unfold])

lemma stint_laps_StintLapNumber:
  "map StintLapNumber (stint_laps laps run) = [1..int (length (stint_laps laps run))]"
  by (simp add: stint_laps_unfold[of laps run] comp_def case_prod_unfold
        map_zip_snd'[where g="\<lambda>x. x", unfolded case_prod_unfold] selected_def)

lemma stint_laps_key: "r \<in> set (stint_laps laps run) \<Longrightarrow> lap_key r = run_key run"
  by (auto simp: stint_laps_unfold selected_def stint_group_def dest!: set_zip_leftD)

lemma filter_key_stint_laps:
  "filter (\<lambda>r. lap_key r = k) (stint_laps laps run) = (if run_key run = k then stint_laps laps run else [])"
  by (auto simp: filter_empty_conv stint_laps_key intro!: filter_True)

lemma filter_key_concat:
  "distinct (map run_key long_runs) \<Longrightarrow> run \<in> set long_runs \<Longrightarrow>
   filter (\<lambda>r. lap_key r = run_key run) (concat (map (stint_laps laps) long_runs)) = stint_laps laps run"
proof (induction long_runs)
  case Nil
  then show ?case by simp
next
  case (Cons a as)
  show ?case
  proof (cases "run_key a = run_key run")
    case True
    then have "run_key run \<notin> run_key ` set as" using Cons.prems(1) by auto
    then have "\<forall>b \<in> set as. run_key b \<noteq> run_key run"
      by (metis imageI)
    then have "\<forall>b \<in> set as. filter (\<lambda>r. lap_key r = run_key run) (stint_laps laps b) = []"
      by (simp add: filter_key_stint_laps)
    then have "filter (\<lambda>r. lap_key r = run_key run) (concat (map (stint_laps laps) as)) = []"
      by (simp add: filter_concat comp_def)
    moreover have "stint_laps laps a = stint_laps laps run"
      using True by (simp add: stint_laps_unfold selected_def)
    ultimately show ?thesis using True by (simp add: filter_key_stint_laps)
  next
    case False
    then have "run \<in> set as" using Cons.prems(2) by auto
    with Cons.IH Cons.prems(1) False show ?thesis by (simp add: filter_key_stint_laps)
  qed
qed

text \<open>
  C5. \<open>get_long_run_laps\<close> called with an empty long-run table returns the table without
  columns and without rows. For a long-run table whose rows have distinct stint keys, as
  the rows of \<open>identify_long_runs\<close> have, and every row \<open>run\<close> of it, the rows of the
  result with the key of \<open>run\<close> are the valid laps of that stint, sorted by \<open>LapNumber\<close>,
  with \<open>StintLapNumber\<close> running through \<open>1, 2, ...\<close> up to their number.
\<close>

theorem get_long_run_laps_numbering:
  "get_long_run_laps laps [] = NoColumns
   \<and> (\<forall>run \<in> set long_runs. distinct (map run_key long_runs) \<longrightarrow>
        (let grp = filter (\<lambda>r. lap_key r = run_key run) (rows_of (get_long_run_laps laps long_runs))
         in mset (map lap.truncate grp) = mset (stint_group laps (run_key run))
            \<and> sorted (map LapNumber grp)
            \<and> map StintLapNumber grp = [1..int (length grp)]))"
proof -
  have "\<forall>run \<in> set long_runs. distinct (map run_key long_runs) \<longrightarrow>
        (let grp = filter (\<lambda>r. lap_key r = run_key run) (rows_of (get_long_run_laps laps long_runs))
         in mset (map lap.truncate grp) = mset (stint_group laps (run_key run))
            \<and> sorted (map LapNumber grp)
            \<and> map StintLapNumber grp = [1..int (length grp)])"
  proof (intro ballI impI)
    fix run assume run: "run \<in> set long_runs" and d: "distinct (map run_key long_runs)"
    have grp: "filter (\<lambda>r. lap_key r = run_key run) (rows_of (get_long_run_laps laps long_runs))
                 = stint_laps laps run"
      using filter_key_concat[OF d run] by (simp add: get_long_run_laps_rows)
    have a: "mset (map lap.truncate (stint_laps laps run)) = mset (stint_group laps (run_key run))"
      by (simp add: stint_laps_truncate selected_def)
    have b: "sorted (map LapNumber (stint_laps laps run))"
      by (simp add: stint_laps_LapNumber selected_def)
    show "let grp = filter (\<lambda>r. lap_key r = run_key run) (rows_of (get_long_run_laps laps long_runs))
         in mset (map lap.truncate grp) = mset (stint_group laps (run_key run))
            \<and> sorted (map LapNumber grp)
            \<and> map StintLapNumber grp = [1..int (length grp)]"
      unfolding Let_def grp using a b stint_laps_StintLapNumber[of laps run] by blast
  qed
  then show ?thesis by simp
qed

lemma LapNumber_truncate: "map LapNumber (map lap.truncate rs) = map LapNumber rs"
  by (simp add: lap.defs comp_def)

text \<open>
  Three laps of one stint, given in the order 2, 1, 3, with threshold 3: the stint's rows
  come out in the lap order 1, 2, 3 and are numbered 1, 2, 3.
\<close>

theorem get_long_run_laps_numbering_witness:
  "identify_long_runs 3 shuffled_laps None \<noteq> []
   \<and> distinct (map run_key (identify_long_runs 3 shuffled_laps None))
   \<and> list_all
        (\<lambda>run. map LapNumber (filter (\<lambda>r. lap_key r = run_key run)
                   (rows_of (get_long_run_laps shuffled_laps (identify_long_runs 3 shuffled_laps None))))
                 = [1, 2, 3]
               \<and> map StintLapNumber (filter (\<lambda>r. lap_key r = run_key run)
                   (rows_of (get_long_run_laps shuffled_laps (identify_long_runs 3 shuffled_laps None))))
                 = [1, 2, 3])
        (identify_long_runs 3 shuffled_laps None)"
proof -
  let ?L = "identify_long_runs 3 shuffled_laps None"
  let ?k = "(''A'', ''X'', 1::int, 1::int)"
  have keys: "map run_key ?L = [?k]"
    by (simp add: eval_defs shuffled_laps_def)
  then obtain run where L: "?L = [run]" and k: "run_key run = ?k" by auto
  have d: "distinct (map run_key ?L)" by (simp add: keys)
  define grp where "grp = filter (\<lambda>r. lap_key r = run_key run)
                   (rows_of (get_long_run_laps shuffled_laps ?L))"
  have g: "stint_group shuffled_laps ?k = shuffled_laps"
    by (simp add: eval_defs shuffled_laps_def)
  from get_long_run_laps_numbering[of shuffled_laps ?L] L d
  have m: "mset (map lap.truncate grp) = mset shuffled_laps"
    and s: "sorted (map LapNumber grp)"
    and n: "map StintLapNumber grp = [1..int (length grp)]"
    by (simp_all add: Let_def grp_def k g)
  have "mset (map LapNumber (map lap.truncate grp)) = mset (map LapNumber shuffled_laps)"
    using m by (metis mset_map)
  then have "mset (map LapNumber grp) = mset (map LapNumber shuffled_laps)"
    unfolding LapNumber_truncate .
  then have "mset (map LapNumber grp) = mset [2, 1, 3]"
    by (simp add: shuffled_laps_def scenario_lap_def)
  from properties_for_sort[OF this s] have ln: "map LapNumber grp = [1, 2, 3]"
    by simp
  then have "length grp = 3" by (metis length_map length_Cons list.size(3) numeral_3_eq_3)
  with n have sn: "map StintLapNumber grp = [1, 2, 3]"
    by (simp add: upto.simps)
  from L d ln sn show ?thesis by (simp add: grp_def)
qed

subsection \<open>Differences from the stint mean\<close>































subsection \<open>Laps per team and day\<close>

lemma sizes_eq:
  "sizes laps = map (\<lambda>k. (fst k, snd k, team_day_count laps (fst k) (snd k)))
                  (sort (remdups (map (\<lambda>l. (Team l, Day l)) laps)))"
proof -
  have "\<And>k. filter (\<lambda>r. (Team r, Day r) = k) laps = filter (\<lambda>l. Team l = fst k \<and> Day l = snd k) laps"
    by (rule filter_cong) auto
  then show ?thesis
    by (simp add: sizes_def groupby_def team_day_count_def comp_def case_prod_unfold)
qed

lemma sizes_keys: "map (\<lambda>(i, c, v). (i, c)) (sizes laps) = sort (remdups (map (\<lambda>l. (Team l, Day l)) laps))"
  by (simp add: sizes_eq comp_def)

lemma sizes_distinct: "distinct (map (\<lambda>(i, c, v). (i, c)) (sizes laps))"
  by (simp add: sizes_keys)

lemma sorted_remdups_eq:
  "set xs = set ys \<Longrightarrow> sort (remdups xs) = sort (remdups (ys::'a::linorder list))"
  by (intro sorted_distinct_set_unique) simp_all

lemma sizes_index: "sort (remdups (map (\<lambda>(i, c, v). i) (sizes laps))) = sort (remdups (map Team laps))"
  by (rule sorted_remdups_eq) (force simp: sizes_eq)

lemma sizes_columns: "sort (remdups (map (\<lambda>(i, c, v). c) (sizes laps))) = sort (remdups (map Day laps))"
  by (rule sorted_remdups_eq) (force simp: sizes_eq)

lemma sizes_cell:
  "map_of (map (\<lambda>(i, c, v). ((i, c), v)) (sizes laps)) (t, d) =
     (if (t, d) \<in> (\<lambda>l. (Team l, Day l)) ` set laps then Some (team_day_count laps t d) else None)"
proof -
  have "map (\<lambda>(i, c, v). ((i, c), v)) (sizes laps)
          = map (\<lambda>k. (k, team_day_count laps (fst k) (snd k))) (sort (remdups (map (\<lambda>l. (Team l, Day l)) laps)))"
    by (simp add: sizes_eq comp_def)
  then show ?thesis
    by (simp add: map_of_map_restrict restrict_map_def)
qed

lemma count_zero: "(t, d) \<notin> (\<lambda>l. (Team l, Day l)) ` set laps \<Longrightarrow> team_day_count laps t d = 0"
  by (auto simp: team_day_count_def filter_empty_conv)

lemma filled_cell:
  "(case map_of (map (\<lambda>(i, c, v). ((i, c), v)) (sizes laps)) (t, d) of None \<Rightarrow> 0 | Some n \<Rightarrow> n)
     = team_day_count laps t d"
  by (simp add: sizes_cell count_zero)

lemma compute_laps_per_team_day_eq:
  "compute_laps_per_team_day laps =
     Inr \<lparr> index = sort (remdups (map Team laps)),
           columns = sort (remdups (map Day laps)),
           cells = map (\<lambda>t. map (\<lambda>d. team_day_count laps t d) (sort (remdups (map Day laps))))
                     (sort (remdups (map Team laps))) \<rparr>"
  unfolding compute_laps_per_team_day_def
  by (simp add: pivot_def sizes_distinct Let_def sizes_index sizes_columns fillna_int_def comp_def filled_cell)

lemma cell_at_map:
  "i \<in> set idx \<Longrightarrow> c \<in> set cols \<Longrightarrow>
   cell_at \<lparr> index = idx, columns = cols, cells = map (\<lambda>t. map (f t) cols) idx \<rparr> i c = Some (f i c)"
  by (simp add: cell_at_def map_of_zip_map)

text \<open>
  C10. The pivot returned by \<open>compute_laps_per_team_day\<close> is always built (the pivot step
  never meets a duplicate cell). Its rows are the teams and its columns the days of the
  table, every row has one cell per day, every cell is a non-negative integer, and the
  cell of a team and a day is the number of laps of that team on that day, which is \<open>0\<close>
  for a pair without laps.
\<close>

theorem compute_laps_per_team_day_filled:
  "\<exists>t. compute_laps_per_team_day laps = Inr t
       \<and> index t = sort (remdups (map Team laps))
       \<and> columns t = sort (remdups (map Day laps))
       \<and> length (cells t) = length (index t)
       \<and> list_all (\<lambda>row. length row = length (columns t)) (cells t)
       \<and> list_all (list_all (\<lambda>v. 0 \<le> v)) (cells t)
       \<and> (\<forall>team \<in> set (index t). \<forall>day \<in> set (columns t).
             cell_at t team day = Some (team_day_count laps team day))"
proof -
  let ?idx = "sort (remdups (map Team laps))"
  let ?cols = "sort (remdups (map Day laps))"
  let ?t = "\<lparr> index = ?idx, columns = ?cols,
              cells = map (\<lambda>t. map (team_day_count laps t) ?cols) ?idx \<rparr>"
  have 1: "compute_laps_per_team_day laps = Inr ?t"
    by (rule compute_laps_per_team_day_eq)
  have 2: "length (cells ?t) = length (index ?t)" by simp
  have 3: "list_all (\<lambda>row. length row = length (columns ?t)) (cells ?t)"
    by (simp add: list_all_iff)
  have 4: "list_all (list_all (\<lambda>v. 0 \<le> v)) (cells ?t)"
    by (simp add: list_all_iff team_day_count_def)
  have 5: "\<forall>team \<in> set (index ?t). \<forall>day \<in> set (columns ?t).
             cell_at ?t team day = Some (team_day_count laps team day)"
    using cell_at_map[of _ ?idx _ ?cols "team_day_count laps"] by simp
  show ?thesis
    apply (rule exI[of _ ?t])
    using 1 2 3 4 5 by simp
qed

text \<open>
  Team \<open>A\<close> on day 1 and team \<open>B\<close> on day 2: the cells for (A, 2) and (B, 1) are \<open>0\<close>.
\<close>

theorem compute_laps_per_team_day_filled_witness:
  "compute_laps_per_team_day two_days = Inr two_days_pivot
   \<and> cell_at two_days_pivot ''A'' 1 = Some 1 \<and> cell_at two_days_pivot ''A'' 2 = Some 0
   \<and> cell_at two_days_pivot ''B'' 1 = Some 0 \<and> cell_at two_days_pivot ''B'' 2 = Some 1"
proof -
  have e: "compute_laps_per_team_day two_days = Inr two_days_pivot"
    by (simp add: compute_laps_per_team_day_def sizes_def groupby_def pivot_def fillna_int_def
          two_days_def two_days_pivot_def)
  have n: "team_day_count two_days ''A'' 1 = 1" "team_day_count two_days ''A'' 2 = 0"
    "team_day_count two_days ''B'' 1 = 0" "team_day_count two_days ''B'' 2 = 1"
    by (simp_all add: two_days_def team_day_count_def)
  have ic: "index two_days_pivot = [''A'', ''B'']" "columns two_days_pivot = [1, 2]"
    by (simp_all add: two_days_pivot_def)
  from compute_laps_per_team_day_filled[of two_days] e
  have "\<forall>team \<in> set (index two_days_pivot). \<forall>day \<in> set (columns two_days_pivot).
             cell_at two_days_pivot team day = Some (team_day_count two_days team day)"
    by auto
  then have "cell_at two_days_pivot ''A'' 1 = Some 1 \<and> cell_at two_days_pivot ''A'' 2 = Some 0
       \<and> cell_at two_days_pivot ''B'' 1 = Some 0 \<and> cell_at two_days_pivot ''B'' 2 = Some 1"
    by (simp add: ic n)
  with e show ?thesis by blast
qed

subsection \<open>Which lap times are aggregated\<close>

lemma identify_long_runs_filtered:
  "identify_long_runs D laps m = identify_long_runs D (filter valid_lap laps) m"
  by (simp add: identify_long_runs_unfold)

lemma total_laps_row:
  assumes "r \<in> set (compute_total_laps laps)"
  shows "TotalLaps r = int (length (filter (\<lambda>l. Team l = total_Team r) laps))"
  using assms by (auto simp: compute_total_laps_def sort_values_desc_def groupby_def)

lemma team_stats_fields:
  assumes r: "r \<in> set (compute_team_stats laps)"
  defines "ts \<equiv> team_times laps (stats_Team r)"
  shows "count_col r = int (length ts)"
    and "min_col r = (if ts = [] then None else Some (Min (set ts)))"
    and "mean_col r = (if ts = [] then None else Some (sum_list ts / real (length ts)))"
proof -
  note eq = team_stats_row(1)[OF r]
  show "count_col r = int (length ts)"
    by (subst eq) (simp add: agg_count_lap_times ts_def team_times_def)
  show "min_col r = (if ts = [] then None else Some (Min (set ts)))"
    by (subst eq) (simp add: agg_min_lap_times ts_def team_times_def)
  show "mean_col r = (if ts = [] then None else Some (sum_list ts / real (length ts)))"
    by (subst eq) (simp add: agg_mean_lap_times ts_def team_times_def)
qed

text \<open>
  C1 (as amended). \<open>identify_long_runs\<close> first restricts the table to the laps whose
  \<open>LapTimeSeconds\<close> is present and strictly positive: its result on a table is its result
  on the valid laps of the table. \<open>compute_team_stats\<close> aggregates every present lap time
  of a team, positive or not: the aggregations skip missing values and nothing else. The
  reliability lap counts count every row of a team, whatever its lap time.
\<close>

theorem lap_time_filtering:
  "identify_long_runs LONG_RUN_MIN_LAPS laps min_laps
     = identify_long_runs LONG_RUN_MIN_LAPS (filter valid_lap laps) min_laps
   \<and> (\<forall>r \<in> set (compute_team_stats laps).
         let ts = team_times laps (stats_Team r)
         in count_col r = int (length ts)
            \<and> min_col r = (if ts = [] then None else Some (Min (set ts)))
            \<and> mean_col r = (if ts = [] then None else Some (sum_list ts / real (length ts))))
   \<and> (\<forall>r \<in> set (compute_total_laps laps).
         TotalLaps r = int (length (filter (\<lambda>l. Team l = total_Team r) laps)))"
proof -
  have a: "identify_long_runs LONG_RUN_MIN_LAPS laps min_laps
     = identify_long_runs LONG_RUN_MIN_LAPS (filter valid_lap laps) min_laps"
    by (rule identify_long_runs_filtered)
  have b: "\<forall>r \<in> set (compute_team_stats laps).
         let ts = team_times laps (stats_Team r)
         in count_col r = int (length ts)
            \<and> min_col r = (if ts = [] then None else Some (Min (set ts)))
            \<and> mean_col r = (if ts = [] then None else Some (sum_list ts / real (length ts)))"
    unfolding Let_def using team_stats_fields[of _ laps] by blast
  have c: "\<forall>r \<in> set (compute_total_laps laps).
         TotalLaps r = int (length (filter (\<lambda>l. Team l = total_Team r) laps))"
    using total_laps_row by blast
  from a b c show ?thesis by blast
qed

lemmas eval_odd_defs =
  compute_team_stats_def compute_total_laps_def sort_values_desc_def groupby_def sort_values_def
  agg_team_def agg_median_def agg_min_def agg_mean_def agg_std_def agg_count_def nan_sub_def
  odd_times_def valid_lap_def team_times_def lap_times_def

text \<open>
  One team with the lap times \<open>0\<close>, \<open>90\<close> and a missing one: count 2, minimum \<open>0\<close>, mean
  45, and three laps in total.
\<close>

theorem lap_time_filtering_witness:
  "map stats_Team (compute_team_stats odd_times) = [''A'']
   \<and> map count_col (compute_team_stats odd_times) = [2]
   \<and> map min_col (compute_team_stats odd_times) = [Some 0]
   \<and> map mean_col (compute_team_stats odd_times) = [Some 45]
   \<and> map total_Team (compute_total_laps odd_times) = [''A'']
   \<and> map TotalLaps (compute_total_laps odd_times) = [3]"
proof -
  have t: "map stats_Team (compute_team_stats odd_times) = [''A'']"
    by (simp add: eval_odd_defs)
  then obtain r where S: "compute_team_stats odd_times = [r]" and r: "stats_Team r = ''A''"
    by auto
  have u: "map total_Team (compute_total_laps odd_times) = [''A'']"
    by (simp add: eval_odd_defs)
  then obtain q where T: "compute_total_laps odd_times = [q]" and q: "total_Team q = ''A''"
    by auto
  have ts: "team_times odd_times ''A'' = [0, 90]"
    by (simp add: odd_times_def team_times_def lap_times_def)
  have n: "length (filter (\<lambda>l. Team l = ''A'') odd_times) = 3"
    by (simp add: odd_times_def)
  from lap_time_filtering[of 5 odd_times None] S T
  have "count_col r = 2 \<and> min_col r = Some 0 \<and> mean_col r = Some 45 \<and> TotalLaps q = 3"
    by (simp add: Let_def r q ts n)
  with S T t u show ?thesis by simp
qed

text \<open>
  Not every aggregation is restricted to the valid laps. On that table only one lap has a
  present, positive lap time, yet the team's minimum is \<open>0\<close>, its count is 2 and its
  total of laps is 3.
\<close>

theorem unfiltered_aggregation_counterexample:
  "length (filter valid_lap odd_times) = 1
   \<and> map min_col (compute_team_stats odd_times) = [Some 0]
   \<and> map count_col (compute_team_stats odd_times) = [2]
   \<and> map TotalLaps (compute_total_laps odd_times) = [3]"
  by (simp add: eval_odd_defs)

subsection \<open>The default threshold\<close>


end
